theory Spec2Isabelle
  imports Complex_Main
begin

section \<open>Data model\<close>

text \<open>
  A Python float as \<open>json.loads\<close> can return it: a finite number (carried exactly),
  or one of the values that the literals \<open>NaN\<close>, \<open>Infinity\<close> and \<open>-Infinity\<close> give.
\<close>

datatype pyfloat = Finite rat | NaN | PosInf | NegInf

text \<open>
  Values that cross the JSON boundaries of the service (request bodies, the
  \<open>params_json\<close> and \<open>result_refs\<close> columns, the dispatch message). A Python
  dictionary is an association list in insertion order.
\<close>

datatype json =
    JNull
  | JBool bool
  | JInt int
  | JFloat pyfloat
  | JStr string
  | JList "json list"
  | JDict "(string \<times> json) list"

text \<open>Python truthiness, as \<open>if not data\<close> and \<open>if job.result_refs\<close> use it.\<close>

fun truthy :: "json \<Rightarrow> bool" where
  "truthy JNull = False"
| "truthy (JBool b) = b"
| "truthy (JInt n) = (n \<noteq> 0)"
| "truthy (JFloat x) = (x \<noteq> Finite 0)"
| "truthy (JStr s) = (s \<noteq> [])"
| "truthy (JList xs) = (xs \<noteq> [])"
| "truthy (JDict kvs) = (kvs \<noteq> [])"

text \<open>
  What \<open>json.dumps(_, allow_nan=False)\<close> accepts, the rendering of a \<open>JSONResponse\<close>:
  a value with no NaN and no infinity anywhere inside. On any other value it raises
  ValueError.
\<close>

fun json_compliant :: "json \<Rightarrow> bool" where
  "json_compliant (JFloat x) = (case x of Finite q \<Rightarrow> True | _ \<Rightarrow> False)"
| "json_compliant (JList xs) = list_all json_compliant xs"
| "json_compliant (JDict kvs) = list_all (\<lambda>kv. json_compliant (snd kv)) kvs"
| "json_compliant v = True"

text \<open>
  A UUID in its canonical text form (what \<open>str(job.id)\<close> prints); a timestamp in
  microseconds, the resolution of \<open>datetime\<close>.
\<close>

type_synonym uuid = string
type_synonym timestamp = int

text \<open>
  \<open>timedelta.total_seconds()\<close> of a difference of two timestamps. The source computes in
  binary floating point; the model computes the exact rational.
\<close>

definition total_seconds :: "int \<Rightarrow> rat" where
  "total_seconds d = of_int d / 1000000"

text \<open>
  A raised exception: \<open>HTTPException(status_code, detail)\<close>, or any other Python
  exception, carried with \<open>str(e)\<close>.
\<close>

datatype exn = HTTPException nat string | PyError string

fun str_exn :: "exn \<Rightarrow> string" where
  "str_exn (HTTPException code detail) = detail"
| "str_exn (PyError msg) = msg"

subsection \<open>schemas.py: the enumerations\<close>

datatype JobType = MONTE_CARLO | MARKOWITZ | BLACK_SCHOLES | BACKTEST

fun JobType_value :: "JobType \<Rightarrow> string" where
  "JobType_value MONTE_CARLO = ''montecarlo''"
| "JobType_value MARKOWITZ = ''markowitz''"
| "JobType_value BLACK_SCHOLES = ''blackscholes''"
| "JobType_value BACKTEST = ''backtest''"

text \<open>\<open>JobType(s)\<close>: the member whose value is \<open>s\<close>; \<open>None\<close> where Python raises ValueError.\<close>

definition JobType_of :: "string \<Rightarrow> JobType option" where
  "JobType_of s =
     (if s = ''montecarlo'' then Some MONTE_CARLO
      else if s = ''markowitz'' then Some MARKOWITZ
      else if s = ''blackscholes'' then Some BLACK_SCHOLES
      else if s = ''backtest'' then Some BACKTEST
      else None)"

text \<open>\<open>class JobStatus\<close> has four members; there is none for \<open>cancelled\<close>.\<close>

datatype JobStatus = QUEUED | RUNNING | COMPLETED | FAILED

fun JobStatus_value :: "JobStatus \<Rightarrow> string" where
  "JobStatus_value QUEUED = ''queued''"
| "JobStatus_value RUNNING = ''running''"
| "JobStatus_value COMPLETED = ''completed''"
| "JobStatus_value FAILED = ''failed''"

text \<open>
  Validation of a field declared \<open>status: JobStatus\<close>: the string is coerced to the
  member with that value, and the model is rejected when there is none.
\<close>

definition JobStatus_of :: "string \<Rightarrow> JobStatus option" where
  "JobStatus_of s =
     (if s = ''queued'' then Some QUEUED
      else if s = ''running'' then Some RUNNING
      else if s = ''completed'' then Some COMPLETED
      else if s = ''failed'' then Some FAILED
      else None)"

definition DataInterval_values :: "string list" where
  "DataInterval_values =
     [''1min'', ''5min'', ''15min'', ''30min'', ''45min'', ''1h'', ''2h'', ''4h'',
      ''1d'', ''1week'', ''1month'']"

definition DataVendor_values :: "string list" where
  "DataVendor_values = [''eodhd'', ''twelvedata'']"

subsection \<open>models.py: the Job row\<close>

text \<open>
  The columns of \<open>class Job\<close>. The column \<open>id\<close> is \<open>job_id\<close> and the column \<open>type\<close> is
  \<open>job_type\<close> here. \<open>status\<close> is a \<open>String(20)\<close> column: any string can be stored.
\<close>

record job =
  job_id :: uuid
  user_id :: uuid
  job_type :: string
  status :: string
  params_json :: json
  symbols :: "string list"
  start_ts :: timestamp
  end_ts :: timestamp
  interval :: string
  vendor :: string
  adjusted :: bool
  created_at :: timestamp
  started_at :: "timestamp option"
  finished_at :: "timestamp option"
  result_refs :: "(string \<times> json) list option"
  error :: "string option"

text \<open>
  The SQLAlchemy session over the \<open>jobs\<close> table: \<open>rows\<close> is the committed table in
  insertion order, \<open>pending\<close> the objects given to \<open>db.add\<close> and not yet committed.
  The store itself is taken to be reliable: \<open>commit\<close> does not raise.
\<close>

record session =
  rows :: "job list"
  pending :: "job list"

definition db_add :: "job \<Rightarrow> session \<Rightarrow> session" where
  "db_add j db = db\<lparr>pending := pending db @ [j]\<rparr>"

definition db_commit :: "session \<Rightarrow> session" where
  "db_commit db = db\<lparr>rows := rows db @ pending db, pending := []\<rparr>"

definition db_rollback :: "session \<Rightarrow> session" where
  "db_rollback db = db\<lparr>pending := []\<rparr>"

text \<open>
  A loaded row is attached to the session: assigning to its attributes and committing
  writes the object back to the row it was loaded from, the row with the primary key
  \<open>key\<close> that the object had when it was loaded.
\<close>

definition db_write :: "uuid \<Rightarrow> job \<Rightarrow> session \<Rightarrow> session" where
  "db_write key j db =
     db_commit (db\<lparr>rows := map (\<lambda>r. if job_id r = key then j else r) (rows db)\<rparr>)"

text \<open>\<open>Job.get_job\<close>: \<open>db.query(cls).filter(cls.id == job_id).first()\<close>.\<close>

definition get_job_row :: "session \<Rightarrow> uuid \<Rightarrow> job option" where
  "get_job_row db jid = find (\<lambda>r. job_id r = jid) (rows db)"

text \<open>
  One keyword argument of \<open>Job.update_status(db, status, **kwargs)\<close>. A keyword that
  names a column comes with a value of the column's type. \<open>status\<close>, \<open>db\<close> and \<open>self\<close>
  are parameters of the method and cannot be keywords. Every other keyword is
  \<open>KW_other\<close>: either \<open>hasattr\<close> is false and it is skipped, or it names an attribute
  that is no column and the row is not affected. The keyword arguments are a list in
  the order of the call; Python has each keyword once.
\<close>

datatype kwarg =
    KW_id uuid
  | KW_user_id uuid
  | KW_type string
  | KW_params_json json
  | KW_symbols "string list"
  | KW_start_ts timestamp
  | KW_end_ts timestamp
  | KW_interval string
  | KW_vendor string
  | KW_adjusted bool
  | KW_created_at timestamp
  | KW_started_at "timestamp option"
  | KW_finished_at "timestamp option"
  | KW_result_refs "(string \<times> json) list option"
  | KW_error "string option"
  | KW_other string

text \<open>One round of the loop \<open>if hasattr(self, key): setattr(self, key, value)\<close>.\<close>

fun setattr_job :: "kwarg \<Rightarrow> job \<Rightarrow> job" where
  "setattr_job (KW_id v) j = j\<lparr>job_id := v\<rparr>"
| "setattr_job (KW_user_id v) j = j\<lparr>user_id := v\<rparr>"
| "setattr_job (KW_type v) j = j\<lparr>job_type := v\<rparr>"
| "setattr_job (KW_params_json v) j = j\<lparr>params_json := v\<rparr>"
| "setattr_job (KW_symbols v) j = j\<lparr>symbols := v\<rparr>"
| "setattr_job (KW_start_ts v) j = j\<lparr>start_ts := v\<rparr>"
| "setattr_job (KW_end_ts v) j = j\<lparr>end_ts := v\<rparr>"
| "setattr_job (KW_interval v) j = j\<lparr>interval := v\<rparr>"
| "setattr_job (KW_vendor v) j = j\<lparr>vendor := v\<rparr>"
| "setattr_job (KW_adjusted v) j = j\<lparr>adjusted := v\<rparr>"
| "setattr_job (KW_created_at v) j = j\<lparr>created_at := v\<rparr>"
| "setattr_job (KW_started_at v) j = j\<lparr>started_at := v\<rparr>"
| "setattr_job (KW_finished_at v) j = j\<lparr>finished_at := v\<rparr>"
| "setattr_job (KW_result_refs v) j = j\<lparr>result_refs := v\<rparr>"
| "setattr_job (KW_error v) j = j\<lparr>error := v\<rparr>"
| "setattr_job (KW_other k) j = j"

text \<open>
  \<open>Job.update_status(db, status, **kwargs)\<close> at time \<open>now\<close> (\<open>datetime.utcnow()\<close>):
  the status is assigned, a timestamp is stamped, and then the keyword arguments are
  assigned in their order. \<open>update_fields\<close> is the object after these assignments;
  \<open>update_status\<close> returns it with the session after \<open>db.commit()\<close>.
\<close>

definition update_fields :: "timestamp \<Rightarrow> string \<Rightarrow> kwarg list \<Rightarrow> job \<Rightarrow> job" where
  "update_fields now st kwargs j =
     (let j1 = j\<lparr>status := st\<rparr>;
          j2 = (if st = ''running'' \<and> started_at j1 = None then j1\<lparr>started_at := Some now\<rparr>
                else if (st = ''completed'' \<or> st = ''failed'') \<and> finished_at j1 = None
                  then j1\<lparr>finished_at := Some now\<rparr>
                else j1)
      in fold setattr_job kwargs j2)"

definition update_status ::
  "timestamp \<Rightarrow> session \<Rightarrow> job \<Rightarrow> string \<Rightarrow> kwarg list \<Rightarrow> job \<times> session" where
  "update_status now db j st kwargs =
     (let j' = update_fields now st kwargs j in (j', db_write (job_id j) j' db))"



section \<open>The API tier (app/pubsub.py, app/api/jobs.py)\<close>

text \<open>
  What the API tier takes from outside the repository: the column default
  \<open>uuid.uuid4\<close>, the clock, the standard library's \<open>datetime.strptime(_, "%Y-%m-%d")\<close>
  (\<open>None\<close> where it raises ValueError), \<open>strftime("%Y-%m-%d")\<close> and \<open>uuid.UUID(_)\<close>
  (\<open>None\<close> where it raises ValueError), and the Pub/Sub client:
  \<open>publisher\<close> is \<open>None\<close> when \<open>PubSubPublisher.publisher\<close> is (no project configured,
  or the client library absent), and otherwise answers a publish with the message id
  or with the exception that \<open>future.result()\<close> raises.
\<close>

record api_env =
  uuid4 :: uuid
  utcnow :: timestamp
  strptime :: "string \<Rightarrow> timestamp option"
  strftime :: "timestamp \<Rightarrow> string"
  UUID :: "string \<Rightarrow> uuid option"
  publisher :: "(json \<Rightarrow> exn + string) option"

text \<open>The state the API tier acts on: the database session and the Pub/Sub topic.\<close>

record api_world =
  db :: session
  topic :: "json list"

record user =
  u_id :: uuid
  is_active :: bool

text \<open>A validated \<open>CreateJobRequest\<close>; \<open>rq_params\<close> is the dictionary form of \<open>params\<close>.\<close>

record CreateJobRequest =
  rq_type :: JobType
  rq_symbols :: "string list"
  rq_start :: string
  rq_end :: string
  rq_interval :: string
  rq_vendor :: "string option"
  rq_adjusted :: bool
  rq_params :: json

record JobCreateResponse =
  cr_job_id :: uuid
  cr_status :: JobStatus
  cr_message :: string
  cr_estimated_duration :: "int option"

record JobStatusResponse =
  v_job_id :: uuid
  v_user_id :: uuid
  v_type :: JobType
  v_status :: JobStatus
  v_symbols :: "string list"
  v_start :: string
  v_end :: string
  v_interval :: string
  v_vendor :: string
  v_adjusted :: bool
  v_params :: json
  v_created_at :: timestamp
  v_started_at :: "timestamp option"
  v_finished_at :: "timestamp option"
  v_metrics :: "json option"
  v_result_urls :: "json option"
  v_error :: "string option"
  v_progress :: "rat option"


text \<open>
  \<open>PubSubPublisher.publish_job\<close>: without a client it prints a warning and returns
  \<open>None\<close>; with one it publishes and returns the message id, or re-raises.
\<close>

definition publish_job ::
  "api_env \<Rightarrow> json \<Rightarrow> json list \<Rightarrow> (exn + string option) \<times> json list" where
  "publish_job env job_data tp =
     (case publisher env of
        None \<Rightarrow> (Inr None, tp)
      | Some publish \<Rightarrow>
          (case publish job_data of
             Inl e \<Rightarrow> (Inl e, tp)
           | Inr message_id \<Rightarrow> (Inr (Some message_id), tp @ [job_data])))"

text \<open>\<open>Job.create_job\<close>: parse the dates, build the row, add, commit, refresh.\<close>

definition Job_create_job ::
  "api_env \<Rightarrow> session \<Rightarrow> uuid \<Rightarrow> string \<Rightarrow> string list \<Rightarrow> string \<Rightarrow> string \<Rightarrow> string \<Rightarrow>
   string \<Rightarrow> bool \<Rightarrow> json \<Rightarrow> exn + (job \<times> session)" where
  "Job_create_job env d uid jtype syms start_date end_date intv vend adj params =
     (case strptime env start_date of
        None \<Rightarrow> Inl (PyError ''time data does not match format'')
      | Some s_ts \<Rightarrow>
          (case strptime env end_date of
             None \<Rightarrow> Inl (PyError ''time data does not match format'')
           | Some e_ts \<Rightarrow>
               (let j = \<lparr>job_id = uuid4 env, user_id = uid, job_type = jtype,
                          status = ''queued'', params_json = params, symbols = syms,
                          start_ts = s_ts, end_ts = e_ts, interval = intv, vendor = vend,
                          adjusted = adj, created_at = utcnow env, started_at = None,
                          finished_at = None, result_refs = None, error = None\<rparr>
                in Inr (j, db_commit (db_add j d)))))"

text \<open>\<open>_estimate_job_duration\<close>, in seconds.\<close>

fun base_duration :: "JobType \<Rightarrow> int" where
  "base_duration MONTE_CARLO = 30"
| "base_duration MARKOWITZ = 15"
| "base_duration BLACK_SCHOLES = 10"
| "base_duration BACKTEST = 45"

definition estimate_job_duration :: "JobType \<Rightarrow> int \<Rightarrow> int" where
  "estimate_job_duration jt num_symbols =
     (let base = base_duration jt; symbol_factor = min (num_symbols * 2) 60
      in base + symbol_factor)"

text \<open>
  \<open>_calculate_job_progress\<close>. \<open>created_at\<close> is a non-null column and a \<open>datetime\<close> is
  always true, so the test \<open>job.started_at and job.created_at\<close> is the test on
  \<open>started_at\<close>. \<open>JobType(job.type)\<close> raises ValueError on a type outside the enum.
  The function has no clock: \<open>elapsed\<close> is \<open>started_at - created_at\<close>.
\<close>

definition calculate_job_progress :: "job \<Rightarrow> exn + rat option" where
  "calculate_job_progress j =
     (if status j = ''queued'' then Inr (Some 0)
      else if status j = ''running'' then
        (case started_at j of
           Some st \<Rightarrow>
             (let elapsed = total_seconds (st - created_at j) in
              case JobType_of (job_type j) of
                None \<Rightarrow> Inl (PyError ''not a valid JobType'')
              | Some jt \<Rightarrow>
                  (let estimated_duration = estimate_job_duration jt (int (length (symbols j)))
                   in Inr (Some (min (9 / 10) (elapsed / of_int estimated_duration)))))
         | None \<Rightarrow> Inr (Some (1 / 2)))
      else if status j = ''completed'' then Inr (Some 1)
      else if status j = ''failed'' then Inr (Some 0)
      else Inr None)"

text \<open>The dispatch message that \<open>create_job\<close> builds from the stored row and the request.\<close>

definition message_data :: "job \<Rightarrow> CreateJobRequest \<Rightarrow> json" where
  "message_data j job_request =
     JDict [(''job_id'', JStr (job_id j)),
            (''user_id'', JStr (user_id j)),
            (''type'', JStr (job_type j)),
            (''symbols'', JList (map JStr (symbols j))),
            (''start_date'', JStr (rq_start job_request)),
            (''end_date'', JStr (rq_end job_request)),
            (''interval'', JStr (interval j)),
            (''vendor'', JStr (vendor j)),
            (''adjusted'', JBool (adjusted j)),
            (''params'', params_json j)]"

text \<open>
  \<open>create_job\<close> (POST /v1/jobs). Any exception inside the \<open>try\<close> block, the response
  model's validation included, reaches the handler that calls \<open>db.rollback()\<close> and
  raises HTTP 500.
\<close>

definition create_failed :: "exn \<Rightarrow> exn" where
  "create_failed e = HTTPException 500 (''Failed to create job: '' @ str_exn e)"

text \<open>The call \<open>Job.create_job(db=db, user_id=current_user.id, ...)\<close> of \<open>create_job\<close>.\<close>

definition create_job_row ::
  "api_env \<Rightarrow> CreateJobRequest \<Rightarrow> user \<Rightarrow> session \<Rightarrow> exn + (job \<times> session)" where
  "create_job_row env job_request current_user d =
     Job_create_job env d (u_id current_user)
       (JobType_value (rq_type job_request)) (rq_symbols job_request)
       (rq_start job_request) (rq_end job_request) (rq_interval job_request)
       (case rq_vendor job_request of Some v \<Rightarrow> v | None \<Rightarrow> ''eodhd'')
       (rq_adjusted job_request) (rq_params job_request)"

definition create_job ::
  "api_env \<Rightarrow> CreateJobRequest \<Rightarrow> user \<Rightarrow> api_world \<Rightarrow> (exn + JobCreateResponse) \<times> api_world" where
  "create_job env job_request current_user w =
     (case create_job_row env job_request current_user (db w) of
        Inl e \<Rightarrow> (Inl (create_failed e), w\<lparr>db := db_rollback (db w)\<rparr>)
      | Inr (j, d1) \<Rightarrow>
          (case publish_job env (message_data j job_request) (topic w) of
             (Inl e, tp) \<Rightarrow> (Inl (create_failed e), \<lparr>db = db_rollback d1, topic = tp\<rparr>)
           | (Inr message_id, tp) \<Rightarrow>
               (let estimated_duration =
                      estimate_job_duration (rq_type job_request)
                        (int (length (rq_symbols job_request)))
                in case JobStatus_of (status j) of
                     None \<Rightarrow>
                       (Inl (create_failed (PyError ''validation error for JobCreateResponse'')),
                        \<lparr>db = db_rollback d1, topic = tp\<rparr>)
                   | Some st \<Rightarrow>
                       (Inr \<lparr>cr_job_id = job_id j, cr_status = st,
                             cr_message = ''Job queued successfully'',
                             cr_estimated_duration = Some estimated_duration\<rparr>,
                        \<lparr>db = d1, topic = tp\<rparr>))))"

text \<open>
  The construction \<open>JobStatusResponse(job_id=job.id, ...)\<close>, written out twice in the
  source (in \<open>get_job\<close> and in \<open>list_jobs\<close>). The arguments are evaluated first
  (\<open>JobType(job.type)\<close> and \<open>_calculate_job_progress(job)\<close> can raise), then the model
  validates its fields: \<open>status\<close> against \<open>JobStatus\<close>, \<open>interval\<close> against
  \<open>DataInterval\<close>, \<open>vendor\<close> against \<open>DataVendor\<close>, \<open>params\<close> as a dictionary,
  \<open>metrics\<close> as a dictionary or null, \<open>result_urls\<close> as a list or null, and
  \<open>progress\<close> within 0 and 1. A failed validation raises pydantic's ValidationError.
\<close>

definition refs_get :: "(string \<times> json) list option \<Rightarrow> string \<Rightarrow> json option" where
  "refs_get refs k =
     (case refs of
        None \<Rightarrow> None
      | Some kvs \<Rightarrow>
          if kvs \<noteq> [] then
            (case map_of kvs k of Some JNull \<Rightarrow> None | Some v \<Rightarrow> Some v | None \<Rightarrow> None)
          else None)"

fun is_dict :: "json \<Rightarrow> bool" where
  "is_dict (JDict kvs) = True"
| "is_dict v = False"

fun is_list :: "json \<Rightarrow> bool" where
  "is_list (JList xs) = True"
| "is_list v = False"

definition JobStatusResponse_of :: "api_env \<Rightarrow> job \<Rightarrow> exn + JobStatusResponse" where
  "JobStatusResponse_of env j =
     (case JobType_of (job_type j) of
        None \<Rightarrow> Inl (PyError ''not a valid JobType'')
      | Some jt \<Rightarrow>
          (let metrics = refs_get (result_refs j) ''metrics'';
               urls = refs_get (result_refs j) ''urls''
           in case calculate_job_progress j of
                Inl e \<Rightarrow> Inl e
              | Inr progress \<Rightarrow>
                  (case JobStatus_of (status j) of
                     None \<Rightarrow> Inl (PyError ''validation error for JobStatusResponse'')
                   | Some st \<Rightarrow>
                       if interval j \<in> set DataInterval_values
                          \<and> vendor j \<in> set DataVendor_values
                          \<and> is_dict (params_json j)
                          \<and> (case metrics of None \<Rightarrow> True | Some m \<Rightarrow> is_dict m)
                          \<and> (case urls of None \<Rightarrow> True | Some u \<Rightarrow> is_list u)
                          \<and> (case progress of None \<Rightarrow> True | Some p \<Rightarrow> 0 \<le> p \<and> p \<le> 1)
                       then
                         Inr \<lparr>v_job_id = job_id j, v_user_id = user_id j, v_type = jt,
                               v_status = st, v_symbols = symbols j,
                               v_start = strftime env (start_ts j),
                               v_end = strftime env (end_ts j),
                               v_interval = interval j, v_vendor = vendor j,
                               v_adjusted = adjusted j, v_params = params_json j,
                               v_created_at = created_at j, v_started_at = started_at j,
                               v_finished_at = finished_at j, v_metrics = metrics,
                               v_result_urls = urls, v_error = error j,
                               v_progress = progress\<rparr>
                       else Inl (PyError ''validation error for JobStatusResponse''))))"

text \<open>\<open>get_job\<close> (GET /v1/jobs/{job_id}). It reads only.\<close>

definition get_job :: "api_env \<Rightarrow> string \<Rightarrow> user \<Rightarrow> api_world \<Rightarrow> exn + JobStatusResponse" where
  "get_job env jid current_user w =
     (case UUID env jid of
        None \<Rightarrow> Inl (HTTPException 400 ''Invalid job ID format'')
      | Some job_uuid \<Rightarrow>
          (case get_job_row (db w) job_uuid of
             None \<Rightarrow> Inl (HTTPException 404 ''Job not found'')
           | Some j \<Rightarrow>
               if user_id j \<noteq> u_id current_user
               then Inl (HTTPException 403 ''Access denied'')
               else JobStatusResponse_of env j))"

text \<open>\<open>cancel_job\<close> (DELETE /v1/jobs/{job_id}).\<close>

definition cancel_job ::
  "api_env \<Rightarrow> string \<Rightarrow> user \<Rightarrow> api_world \<Rightarrow> (exn + json) \<times> api_world" where
  "cancel_job env jid current_user w =
     (case UUID env jid of
        None \<Rightarrow> (Inl (HTTPException 400 ''Invalid job ID format''), w)
      | Some job_uuid \<Rightarrow>
          (case get_job_row (db w) job_uuid of
             None \<Rightarrow> (Inl (HTTPException 404 ''Job not found''), w)
           | Some j \<Rightarrow>
               if user_id j \<noteq> u_id current_user
               then (Inl (HTTPException 403 ''Access denied''), w)
               else if status j \<noteq> ''queued''
               then (Inl (HTTPException 400 ''Only queued jobs can be cancelled''), w)
               else (Inr (JDict [(''message'', JStr ''Job cancelled successfully'')]),
                     w\<lparr>db := snd (update_status (utcnow env) (db w) j ''cancelled'' [])\<rparr>)))"





section \<open>The worker tier (worker/main.py, worker/gcs.py)\<close>

text \<open>
  What the worker takes from outside \<open>worker/main.py\<close>: the standard library's
  decoders (\<open>base64.b64decode(_).decode("utf-8")\<close> and \<open>json.loads\<close>, with the
  exception they raise), the BigQuery loader's \<open>load_prices\<close>, \<open>run_model\<close>,
  \<open>pd.DataFrame\<close>, the bucket handle of the GCS writer and its upload and signing
  calls, the clock, and Python's formatting of a value inside an f-string. Each
  collaborator answers with its result or with the exception it raises. Data frames
  are carried as JSON values. What the code prints is not modelled.
\<close>

record worker_env =
  b64decode_utf8 :: "string \<Rightarrow> exn + string"
  json_loads :: "string \<Rightarrow> exn + json"
  load_prices :: "json \<Rightarrow> json \<Rightarrow> json \<Rightarrow> json \<Rightarrow> json \<Rightarrow> json \<Rightarrow> exn + json"
  run_model :: "json \<Rightarrow> json \<Rightarrow> json \<Rightarrow> exn + (string \<times> json) list"
  DataFrame :: "json \<Rightarrow> exn + json"
  gcs_bucket :: bool
  upload_from_string :: "string \<Rightarrow> json \<Rightarrow> exn option"
  sign_urls :: "json \<Rightarrow> (string \<times> json) list \<Rightarrow> exn + json"
  isoformat_now :: string
  repr :: "json \<Rightarrow> string"

text \<open>
  The state around the worker: the job table that the API tier writes, and the
  artifact bucket as the list of uploads (path and content) in order. Nothing in
  \<open>worker/\<close> opens the job table.
\<close>

record worker_world =
  jobs :: session
  bucket :: "(string \<times> json) list"

text \<open>A value inside an f-string: a string prints as itself, \<open>None\<close> as \<open>None\<close>.\<close>

definition fmt :: "worker_env \<Rightarrow> json \<Rightarrow> string" where
  "fmt env v = (case v of JStr s \<Rightarrow> s | JNull \<Rightarrow> ''None'' | _ \<Rightarrow> repr env v)"

text \<open>\<open>d.get(k, default)\<close> on a dictionary.\<close>

definition dict_get :: "(string \<times> json) list \<Rightarrow> string \<Rightarrow> json \<Rightarrow> json" where
  "dict_get d k dflt = (case map_of d k of Some v \<Rightarrow> v | None \<Rightarrow> dflt)"

text \<open>\<open>GCSWriter.write_metrics_json\<close>: the object \<open>jobs/{job_id}/{filename}\<close>.\<close>

definition write_metrics_json ::
  "worker_env \<Rightarrow> json \<Rightarrow> json \<Rightarrow> string \<Rightarrow> (string \<times> json) list \<Rightarrow>
   (exn + string) \<times> (string \<times> json) list" where
  "write_metrics_json env jid metrics filename b =
     (if \<not> gcs_bucket env then (Inl (PyError ''GCS client not available''), b)
      else
        (let job_path = ''jobs/'' @ fmt env jid @ ''/'' @ filename in
         case upload_from_string env job_path metrics of
           Some e \<Rightarrow> (Inl e, b)
         | None \<Rightarrow> (Inr job_path, b @ [(job_path, metrics)])))"

text \<open>
  \<open>GCSWriter.write_artifact_dataframe(job_id, df, name, "csv")\<close>, which goes to
  \<open>write_artifact_csv\<close> with the file name \<open>{name}.csv\<close>.
\<close>

definition write_artifact_dataframe ::
  "worker_env \<Rightarrow> json \<Rightarrow> json \<Rightarrow> string \<Rightarrow> (string \<times> json) list \<Rightarrow>
   (exn + string) \<times> (string \<times> json) list" where
  "write_artifact_dataframe env jid df name b =
     (if \<not> gcs_bucket env then (Inl (PyError ''GCS client not available''), b)
      else
        (let job_path = ''jobs/'' @ fmt env jid @ ''/'' @ (name @ ''.csv'') in
         case upload_from_string env job_path df of
           Some e \<Rightarrow> (Inl e, b)
         | None \<Rightarrow> (Inr job_path, b @ [(job_path, df)])))"

definition write_job_summary ::
  "worker_env \<Rightarrow> json \<Rightarrow> json \<Rightarrow> json \<Rightarrow> json \<Rightarrow> json \<Rightarrow> json \<Rightarrow> string list \<Rightarrow>
   (string \<times> json) list \<Rightarrow> (exn + string) \<times> (string \<times> json) list" where
  "write_job_summary env jid jtype syms start_date end_date metrics artifacts b =
     write_metrics_json env jid
       (JDict [(''job_id'', jid), (''job_type'', jtype), (''symbols'', syms),
               (''start_date'', start_date), (''end_date'', end_date),
               (''created_at'', JStr (isoformat_now env)), (''metrics'', metrics),
               (''artifacts'', JList (map JStr artifacts))])
       ''summary.json'' b"

definition generate_signed_urls ::
  "worker_env \<Rightarrow> json \<Rightarrow> (string \<times> json) list \<Rightarrow> exn + json" where
  "generate_signed_urls env jid b =
     (if \<not> gcs_bucket env then Inl (PyError ''GCS client not available'')
      else sign_urls env jid b)"

text \<open>
  The model-specific artifact of \<open>process_job\<close>: the simulated paths of a Monte Carlo
  job, else the weights of a Markowitz job, else nothing. The result is the list of
  paths written by this step.
\<close>

definition write_model_artifact ::
  "worker_env \<Rightarrow> json \<Rightarrow> json \<Rightarrow> (string \<times> json) list \<Rightarrow> (string \<times> json) list \<Rightarrow>
   (exn + string list) \<times> (string \<times> json) list" where
  "write_model_artifact env jid jtype model_results b =
     (case (if jtype = JStr ''montecarlo'' then map_of model_results ''paths'' else None) of
        Some paths \<Rightarrow>
          (case DataFrame env paths of
             Inl e \<Rightarrow> (Inl e, b)
           | Inr paths_df \<Rightarrow>
               (case write_artifact_dataframe env jid paths_df ''simulation_paths'' b of
                  (Inl e, b') \<Rightarrow> (Inl e, b')
                | (Inr paths_path, b') \<Rightarrow> (Inr [paths_path], b')))
      | None \<Rightarrow>
          (case (if jtype = JStr ''markowitz'' then map_of model_results ''weights'' else None) of
             Some weights \<Rightarrow>
               (case DataFrame env weights of
                  Inl e \<Rightarrow> (Inl e, b)
                | Inr weights_df \<Rightarrow>
                    (case write_artifact_dataframe env jid weights_df ''portfolio_weights'' b of
                       (Inl e, b') \<Rightarrow> (Inl e, b')
                     | (Inr weights_path, b') \<Rightarrow> (Inr [weights_path], b')))
           | None \<Rightarrow> (Inr [], b)))"

text \<open>
  The part of the \<open>try\<close> block of \<open>process_job\<close> that follows the model run: metrics,
  price table, model-specific artifact, summary, signed URLs, and the returned
  dictionary.
\<close>

definition write_results ::
  "worker_env \<Rightarrow> json \<Rightarrow> json \<Rightarrow> json \<Rightarrow> json \<Rightarrow> json \<Rightarrow> json \<Rightarrow>
   (string \<times> json) list \<Rightarrow> (string \<times> json) list \<Rightarrow> (exn + json) \<times> (string \<times> json) list" where
  "write_results env jid jtype syms start_date end_date prices_df model_results b =
     (case map_of model_results ''metrics'' of
        None \<Rightarrow> (Inl (PyError ''metrics''), b)
      | Some metrics \<Rightarrow>
          (case write_metrics_json env jid metrics ''metrics.json'' b of
             (Inl e, b1) \<Rightarrow> (Inl e, b1)
           | (Inr metrics_path, b1) \<Rightarrow>
               (case (if map_of model_results ''prices'' \<noteq> None
                      then (case write_artifact_dataframe env jid prices_df ''prices'' b1 of
                              (Inl e, b2) \<Rightarrow> (Inl e, b2)
                            | (Inr prices_path, b2) \<Rightarrow> (Inr [metrics_path, prices_path], b2))
                      else (Inr [metrics_path], b1)) of
                  (Inl e, b2) \<Rightarrow> (Inl e, b2)
                | (Inr artifacts, b2) \<Rightarrow>
                    (case write_model_artifact env jid jtype model_results b2 of
                       (Inl e, b3) \<Rightarrow> (Inl e, b3)
                     | (Inr extra, b3) \<Rightarrow>
                         (case write_job_summary env jid jtype syms start_date end_date
                                 metrics (artifacts @ extra) b3 of
                            (Inl e, b4) \<Rightarrow> (Inl e, b4)
                          | (Inr summary_path, b4) \<Rightarrow>
                              (case generate_signed_urls env jid b4 of
                                 Inl e \<Rightarrow> (Inl e, b4)
                               | Inr signed_urls \<Rightarrow>
                                   (Inr (JDict [(''job_id'', jid),
                                                (''status'', JStr ''completed''),
                                                (''artifacts'', JList (map JStr (artifacts @ extra))),
                                                (''signed_urls'', signed_urls),
                                                (''metrics'', metrics)]),
                                    b4)))))))"

text \<open>The values that Python's \<open>len\<close> accepts: strings, lists and dictionaries.\<close>

fun has_len :: "json \<Rightarrow> bool" where
  "has_len (JStr s) = True"
| "has_len (JList xs) = True"
| "has_len (JDict kvs) = True"
| "has_len v = False"

text \<open>
  The \<open>try\<close> block of \<open>process_job\<close>: load the prices, run the model, write. The
  message printed after the load takes \<open>len(symbols)\<close>, which raises TypeError when
  the payload's \<open>symbols\<close> is a number, a boolean or null.
\<close>

definition run_pipeline ::
  "worker_env \<Rightarrow> (string \<times> json) list \<Rightarrow> (string \<times> json) list \<Rightarrow>
   (exn + json) \<times> (string \<times> json) list" where
  "run_pipeline env jd b =
     (let jid = dict_get jd ''job_id'' JNull;
          jtype = dict_get jd ''type'' JNull;
          syms = dict_get jd ''symbols'' (JList []);
          start_date = dict_get jd ''start_date'' JNull;
          end_date = dict_get jd ''end_date'' JNull;
          intv = dict_get jd ''interval'' (JStr ''1d'');
          vend = dict_get jd ''vendor'' (JStr ''eodhd'');
          adj = dict_get jd ''adjusted'' (JBool True);
          params = dict_get jd ''params'' (JDict [])
      in case load_prices env syms start_date end_date intv adj vend of
           Inl e \<Rightarrow> (Inl e, b)
         | Inr prices_df \<Rightarrow>
             if \<not> has_len syms then (Inl (PyError ''object has no len()''), b)
             else
               (case run_model env jtype params prices_df of
                  Inl e \<Rightarrow> (Inl e, b)
                | Inr model_results \<Rightarrow>
                    write_results env jid jtype syms start_date end_date prices_df
                      model_results b))"

text \<open>
  \<open>process_job\<close>. A payload that is not a dictionary has no \<open>get\<close>: the AttributeError
  is raised before the \<open>try\<close> block. An exception of the \<open>try\<close> block is written to
  \<open>error.json\<close>, whose own failure is swallowed, and is then raised again.
\<close>

definition process_job ::
  "worker_env \<Rightarrow> json \<Rightarrow> worker_world \<Rightarrow> (exn + json) \<times> worker_world" where
  "process_job env job_data w =
     (case job_data of
        JDict jd \<Rightarrow>
          (case run_pipeline env jd (bucket w) of
             (Inr result, b) \<Rightarrow> (Inr result, w\<lparr>bucket := b\<rparr>)
           | (Inl e, b) \<Rightarrow>
               (let jid = dict_get jd ''job_id'' JNull;
                    error_data = JDict [(''job_id'', jid), (''error'', JStr (str_exn e)),
                                        (''timestamp'', JStr (isoformat_now env))]
                in (Inl e,
                    w\<lparr>bucket := snd (write_metrics_json env jid error_data ''error.json'' b)\<rparr>)))
      | _ \<Rightarrow> (Inl (PyError ''object has no attribute get''), w))"

text \<open>
  A push delivery: the \<open>authorization\<close> header, and the request body as
  \<open>request.json()\<close> returns it (\<open>None\<close> where it raises).
\<close>

record request =
  authorization :: "string option"
  body :: "json option"

text \<open>
  The outer handlers of \<open>process_pubsub_message\<close>: an HTTPException passes unchanged,
  any other exception becomes HTTP 500.
\<close>

definition internal_error :: "exn \<Rightarrow> exn" where
  "internal_error e =
     (case e of
        HTTPException code detail \<Rightarrow> e
      | PyError msg \<Rightarrow> HTTPException 500 (''Internal server error: '' @ msg))"

text \<open>
  The inner \<open>try\<close> block: \<open>base64.b64decode(data).decode("utf-8")\<close>, then
  \<open>json.loads\<close>. \<open>b64decode\<close> raises TypeError on a value that is not a string.
\<close>

definition decode_data :: "worker_env \<Rightarrow> json \<Rightarrow> exn + json" where
  "decode_data env data =
     (case data of
        JStr s \<Rightarrow>
          (case b64decode_utf8 env s of
             Inl e \<Rightarrow> Inl e
           | Inr decoded_data \<Rightarrow> json_loads env decoded_data)
      | _ \<Rightarrow> Inl (PyError ''argument should be a bytes-like object or ASCII string''))"

text \<open>
  \<open>JSONResponse(content=..., status_code=200)\<close>: the content is rendered when the
  response is built, with \<open>allow_nan=False\<close>, so the constructor raises ValueError on
  a content that holds a NaN or an infinity.
\<close>

definition JSONResponse :: "json \<Rightarrow> nat \<Rightarrow> exn + nat \<times> json" where
  "JSONResponse content code =
     (if json_compliant content then Inr (code, content)
      else Inl (PyError ''Out of range float values are not JSON compliant''))"

text \<open>
  \<open>process_pubsub_message\<close> (POST /pubsub). The result is the exception that leaves
  the handler, or the status code and content of the \<open>JSONResponse\<close>. The response
  is built inside the \<open>try\<close> block, after \<open>process_job\<close> has returned.
\<close>

definition process_pubsub_message ::
  "worker_env \<Rightarrow> request \<Rightarrow> worker_world \<Rightarrow> (exn + nat \<times> json) \<times> worker_world" where
  "process_pubsub_message env req w =
     (if (case authorization req of
            None \<Rightarrow> True
          | Some auth_header \<Rightarrow> auth_header = [] \<or> take 7 auth_header \<noteq> ''Bearer '')
      then (Inl (HTTPException 401 ''Invalid authentication''), w)
      else
        (case body req of
           None \<Rightarrow> (Inl (internal_error (PyError ''request body is not JSON'')), w)
         | Some (JDict bd) \<Rightarrow>
             (case dict_get bd ''message'' (JDict []) of
                JDict message \<Rightarrow>
                  (let data = dict_get message ''data'' (JStr []) in
                   if \<not> truthy data
                   then (Inl (HTTPException 400 ''No message data''), w)
                   else
                     (case decode_data env data of
                        Inl e \<Rightarrow>
                          (Inl (HTTPException 400 (''Invalid message format: '' @ str_exn e)), w)
                      | Inr job_data \<Rightarrow>
                          (case process_job env job_data w of
                             (Inl e, w') \<Rightarrow> (Inl (internal_error e), w')
                           | (Inr result, w') \<Rightarrow>
                               (case JSONResponse
                                       (JDict [(''status'', JStr ''processed''),
                                               (''job_id'',
                                                (case job_data of
                                                   JDict jd \<Rightarrow> dict_get jd ''job_id'' JNull
                                                 | _ \<Rightarrow> JNull))])
                                       200 of
                                  Inl e \<Rightarrow> (Inl (internal_error e), w')
                                | Inr response \<Rightarrow> (Inr response, w')))))
              | _ \<Rightarrow> (Inl (internal_error (PyError ''object has no attribute get'')), w))
         | Some _ \<Rightarrow> (Inl (internal_error (PyError ''object has no attribute get'')), w)))"

text \<open>
  What the push subscription makes of the handler's outcome: a response with a 2xx
  status acknowledges the message (the \<open>JSONResponse\<close> under the comment
  \<open>Acknowledge message\<close>); an HTTPException carries its own status code.
\<close>

fun status_code :: "exn + nat \<times> json \<Rightarrow> nat" where
  "status_code (Inl (HTTPException code detail)) = code"
| "status_code (Inl (PyError msg)) = 500"
| "status_code (Inr (code, content)) = code"

definition acknowledged :: "exn + nat \<times> json \<Rightarrow> bool" where
  "acknowledged r = (200 \<le> status_code r \<and> status_code r < 300)"

section \<open>The Progress Estimator as the specification words it\<close>

text \<open>
  Follows the specification (section 4.6), not the source: for a running record with
  \<open>startedAt\<close> present the estimate is \<open>min(0.9, elapsed / heuristicDuration)\<close>, where
  \<open>elapsed\<close> is the time that has passed since the job started, so it is measured from
  \<open>started\<close> to the moment \<open>now\<close> of the query.
\<close>

definition spec_running_progress :: "timestamp \<Rightarrow> timestamp \<Rightarrow> int \<Rightarrow> rat" where
  "spec_running_progress now started heuristic_duration =
     min (9 / 10) (total_seconds (now - started) / of_int heuristic_duration)"

section \<open>Concrete inputs\<close>

text \<open>
  A caller, a Black-Scholes request for one symbol (Scenario A of the specification),
  and an API environment whose Pub/Sub client is the parameter.
\<close>

definition ex_user :: user where
  "ex_user = \<lparr>u_id = ''u1'', is_active = True\<rparr>"

definition ex_request :: CreateJobRequest where
  "ex_request =
     \<lparr>rq_type = BLACK_SCHOLES, rq_symbols = [''AAPL''], rq_start = ''2024-01-01'',
      rq_end = ''2024-01-31'', rq_interval = ''1d'', rq_vendor = Some ''eodhd'',
      rq_adjusted = True, rq_params = JDict [(''option_type'', JStr ''call'')]\<rparr>"

definition ex_api_env :: "(json \<Rightarrow> exn + string) option \<Rightarrow> api_env" where
  "ex_api_env pub =
     \<lparr>uuid4 = ''j1'', utcnow = 5000000,
      strptime = (\<lambda>s. if s = ''2024-01-01'' then Some 0
                       else if s = ''2024-01-31'' then Some 30 else None),
      strftime = (\<lambda>t. if t = 0 then ''2024-01-01'' else ''2024-01-31''),
      UUID = (\<lambda>s. if s = [] then None else Some s),
      publisher = pub\<rparr>"

definition ex_empty_world :: api_world where
  "ex_empty_world = \<lparr>db = \<lparr>rows = [], pending = []\<rparr>, topic = []\<rparr>"

text \<open>A stored job of the caller \<open>u1\<close> with the given id, type, status and timestamps.\<close>

definition ex_job :: "uuid \<Rightarrow> string \<Rightarrow> string \<Rightarrow> timestamp \<Rightarrow> timestamp option \<Rightarrow> job" where
  "ex_job jid jtype st created started =
     \<lparr>job_id = jid, user_id = ''u1'', job_type = jtype, status = st,
      params_json = JDict [], symbols = [''AAPL''], start_ts = 0, end_ts = 30,
      interval = ''1d'', vendor = ''eodhd'', adjusted = True, created_at = created,
      started_at = started, finished_at = None, result_refs = None, error = None\<rparr>"

definition ex_world :: "job list \<Rightarrow> api_world" where
  "ex_world js = \<lparr>db = \<lparr>rows = js, pending = []\<rparr>, topic = []\<rparr>"

text \<open>
  A push delivery with a bearer token, and a worker environment in which the payload
  decoding and the price loading answer as the parameters say; the model returns
  metrics only, and the bucket accepts every upload.
\<close>

definition ex_delivery :: request where
  "ex_delivery =
     \<lparr>authorization = Some ''Bearer token'',
      body = Some (JDict [(''message'', JDict [(''data'', JStr ''payload'')])])\<rparr>"

definition ex_worker_env :: "(exn + json) \<Rightarrow> (exn + json) \<Rightarrow> worker_env" where
  "ex_worker_env loaded prices =
     \<lparr>b64decode_utf8 = (\<lambda>s. Inr s),
      json_loads = (\<lambda>s. loaded),
      load_prices = (\<lambda>syms start_date end_date intv adj vend. prices),
      run_model = (\<lambda>jtype params df. Inr [(''metrics'', JDict [(''option_price'', JInt 12)])]),
      DataFrame = (\<lambda>v. Inr v),
      gcs_bucket = True,
      upload_from_string = (\<lambda>path content. None),
      sign_urls = (\<lambda>jid b. Inr (JList (map (\<lambda>(path, content). JStr path) b))),
      isoformat_now = ''2024-02-01T00:00:00'',
      repr = (\<lambda>v. ''?'')\<rparr>"

definition ex_worker_world :: "string \<Rightarrow> worker_world" where
  "ex_worker_world st =
     \<lparr>jobs = \<lparr>rows = [ex_job ''j1'' ''blackscholes'' st 0 None], pending = []\<rparr>,
      bucket = []\<rparr>"

text \<open>The job id that a dispatch message carries, as the worker reads it.\<close>

definition message_job_id :: "json \<Rightarrow> json option" where
  "message_job_id m = (case m of JDict kvs \<Rightarrow> map_of kvs ''job_id'' | _ \<Rightarrow> None)"

text \<open>
  Two Pub/Sub clients, one that accepts a message and one whose publish raises; the
  row and the response that \<open>create_job\<close> makes of \<open>ex_request\<close>.
\<close>

definition ex_publisher_ok :: "json \<Rightarrow> exn + string" where
  "ex_publisher_ok m = Inr ''m1''"

definition ex_publisher_down :: "json \<Rightarrow> exn + string" where
  "ex_publisher_down m = Inl (PyError ''deadline exceeded'')"

definition ex_created_job :: job where
  "ex_created_job =
     \<lparr>job_id = ''j1'', user_id = ''u1'', job_type = ''blackscholes'', status = ''queued'',
      params_json = JDict [(''option_type'', JStr ''call'')], symbols = [''AAPL''],
      start_ts = 0, end_ts = 30, interval = ''1d'', vendor = ''eodhd'', adjusted = True,
      created_at = 5000000, started_at = None, finished_at = None, result_refs = None,
      error = None\<rparr>"

definition ex_create_response :: JobCreateResponse where
  "ex_create_response =
     \<lparr>cr_job_id = ''j1'', cr_status = QUEUED, cr_message = ''Job queued successfully'',
      cr_estimated_duration = Some 12\<rparr>"




text \<open>
  The deliveries that reach the decoding step of \<open>process_pubsub_message\<close>: the
  \<open>authorization\<close> header starts with \<open>Bearer\<close> and a space, the body is a
  dictionary, its \<open>message\<close> is a dictionary (or absent), and the \<open>data\<close> of the
  message is the value \<open>data\<close>, which is true in Python's sense.
\<close>

definition delivers :: "request \<Rightarrow> json \<Rightarrow> bool" where
  "delivers req data =
     ((case authorization req of
         None \<Rightarrow> False
       | Some auth_header \<Rightarrow> auth_header \<noteq> [] \<and> take 7 auth_header = ''Bearer '')
      \<and> (case body req of
            Some (JDict bd) \<Rightarrow>
              (case dict_get bd ''message'' (JDict []) of
                 JDict message \<Rightarrow> dict_get message ''data'' (JStr []) = data \<and> truthy data
               | _ \<Rightarrow> False)
          | _ \<Rightarrow> False))"

text \<open>
  Three worker environments for the delivery \<open>ex_delivery\<close>: one in which every
  collaborator succeeds, one in which the price loader raises, and one in which the
  payload is not JSON.
\<close>

definition ex_job_fields :: "(string \<times> json) list" where
  "ex_job_fields =
     [(''job_id'', JStr ''j1''), (''type'', JStr ''blackscholes''),
      (''symbols'', JList [JStr ''AAPL''])]"

definition ex_env_ok :: worker_env where
  "ex_env_ok = ex_worker_env (Inr (JDict ex_job_fields)) (Inr (JList []))"

definition ex_env_no_data :: worker_env where
  "ex_env_no_data =
     ex_worker_env (Inr (JDict ex_job_fields)) (Inl (PyError ''No data found''))"

definition ex_env_bad_json :: worker_env where
  "ex_env_bad_json = ex_worker_env (Inl (PyError ''Expecting value'')) (Inr (JList []))"

section \<open>Properties of the job row and its mutations\<close>

lemma find_replace_row:
  assumes "find (\<lambda>r. job_id r = jid) xs = Some j" and "job_id j' = jid"
  shows "find (\<lambda>r. job_id r = jid)
           (map (\<lambda>r. if job_id r = jid then j' else r) xs @ ys) = Some j'"
  using assms by (induction xs) (auto split: if_splits)

lemma get_job_row_db_write:
  assumes "get_job_row d jid = Some j" and "job_id j' = jid"
  shows "get_job_row (db_write jid j' d) jid = Some j'"
  using find_replace_row [OF assms [unfolded get_job_row_def]]
  by (simp add: get_job_row_def db_write_def db_commit_def)


lemma status_setattr_job: "status (setattr_job kw j) = status j"
  by (cases kw) simp_all

lemma status_fold_setattr_job: "status (fold setattr_job kwargs j) = status j"
  by (induction kwargs arbitrary: j) (simp_all add: status_setattr_job)

lemma status_update_fields: "status (update_fields now st kwargs j) = st"
  by (simp add: update_fields_def Let_def status_fold_setattr_job)

lemma job_id_update_fields: "job_id (update_fields now st [] j) = job_id j"
  by (simp add: update_fields_def Let_def)



lemma get_job_row_job_id: "get_job_row d jid = Some j \<Longrightarrow> job_id j = jid"
  by (auto simp: get_job_row_def find_Some_iff)

lemma get_job_row_update_status:
  assumes "get_job_row d (job_id j) = Some j0"
  shows "get_job_row (snd (update_status now d j st [])) (job_id j)
           = Some (fst (update_status now d j st []))"
proof -
  have "get_job_row (db_write (job_id j) (update_fields now st [] j) d) (job_id j)
          = Some (update_fields now st [] j)"
    by (rule get_job_row_db_write [OF assms]) (simp add: job_id_update_fields)
  then show ?thesis by (simp add: update_status_def Let_def)
qed





section \<open>Cancellation\<close>

text \<open>
  C7. For a job id that parses, names a stored job and belongs to the caller,
  \<open>cancel_job\<close> succeeds exactly when the job's status is \<open>queued\<close>. When it is, the
  stored record's status becomes \<open>cancelled\<close>; when it is not (running, completed,
  failed, already cancelled, or any other string), the call fails with the client
  error HTTP 400 "Only queued jobs can be cancelled" and the state is unchanged.
\<close>

theorem cancel_job_iff_queued:
  assumes "UUID env jid = Some ju"
    and "get_job_row (db w) ju = Some j"
    and "user_id j = u_id cu"
  shows "(\<exists>ok. fst (cancel_job env jid cu w) = Inr ok) = (status j = ''queued'')
    \<and> (if status j = ''queued''
        then map_option status (get_job_row (db (snd (cancel_job env jid cu w))) ju)
               = Some ''cancelled''
        else cancel_job env jid cu w
               = (Inl (HTTPException 400 ''Only queued jobs can be cancelled''), w))"
proof (cases "status j = ''queued''")
  case True
  have id: "job_id j = ju"
    by (rule get_job_row_job_id [OF assms(2)])
  have "get_job_row (snd (update_status (utcnow env) (db w) j ''cancelled'' [])) (job_id j)
          = Some (fst (update_status (utcnow env) (db w) j ''cancelled'' []))"
    by (rule get_job_row_update_status) (use assms(2) id in simp)
  moreover have "status (fst (update_status (utcnow env) (db w) j ''cancelled'' [])) = ''cancelled''"
    by (simp add: update_status_def Let_def status_update_fields)
  ultimately show ?thesis
    using True assms id by (simp add: cancel_job_def)
next
  case False
  with assms show ?thesis by (simp add: cancel_job_def)
qed

text \<open>The theorem at a queued job of the caller.\<close>

theorem cancel_job_iff_queued_witness:
  "UUID (ex_api_env None) ''j1'' = Some ''j1''
   \<and> get_job_row (db (ex_world [ex_job ''j1'' ''blackscholes'' ''queued'' 0 None])) ''j1''
       = Some (ex_job ''j1'' ''blackscholes'' ''queued'' 0 None)
   \<and> user_id (ex_job ''j1'' ''blackscholes'' ''queued'' 0 None) = u_id ex_user
   \<and> map_option status
        (get_job_row
          (db (snd (cancel_job (ex_api_env None) ''j1'' ex_user
                     (ex_world [ex_job ''j1'' ''blackscholes'' ''queued'' 0 None])))) ''j1'')
       = Some ''cancelled''"
proof -
  have a: "UUID (ex_api_env None) ''j1'' = Some ''j1''"
    by (simp add: ex_api_env_def)
  have b: "get_job_row (db (ex_world [ex_job ''j1'' ''blackscholes'' ''queued'' 0 None])) ''j1''
       = Some (ex_job ''j1'' ''blackscholes'' ''queued'' 0 None)"
    by (simp add: ex_world_def ex_job_def get_job_row_def)
  have c: "user_id (ex_job ''j1'' ''blackscholes'' ''queued'' 0 None) = u_id ex_user"
    by (simp add: ex_job_def ex_user_def)
  have q: "status (ex_job ''j1'' ''blackscholes'' ''queued'' 0 None) = ''queued''"
    by (simp add: ex_job_def)
  from cancel_job_iff_queued [OF a b c] q a b c show ?thesis by simp
qed

section \<open>Progress and the job view\<close>

text \<open>In the states without a clock the estimate is a constant.\<close>

lemma progress_fixed_states:
  "calculate_job_progress (j\<lparr>status := ''queued''\<rparr>) = Inr (Some 0)"
  "calculate_job_progress (j\<lparr>status := ''completed''\<rparr>) = Inr (Some 1)"
  "calculate_job_progress (j\<lparr>status := ''failed''\<rparr>) = Inr (Some 0)"
  "calculate_job_progress (j\<lparr>status := ''cancelled''\<rparr>) = Inr None"
  by (simp_all add: calculate_job_progress_def)

text \<open>
  C8, at a running Monte Carlo job for one symbol (estimated duration 32 seconds),
  created at time 0, started one second later and queried 1000 seconds after its
  start. \<open>_calculate_job_progress\<close> takes \<open>elapsed\<close> to be \<open>started_at - created_at\<close>, one
  second, and returns 1/32 at every later moment; the estimate worded by the
  specification, with the time elapsed since the start, is at its cap 0.9.
\<close>

theorem progress_of_running_job_ignores_the_clock:
  "calculate_job_progress (ex_job ''j1'' ''montecarlo'' ''running'' 0 (Some 1000000))
     = Inr (Some (1 / 32))
   \<and> spec_running_progress 1001000000 1000000 (estimate_job_duration MONTE_CARLO 1) = 9 / 10"
  by (simp add: calculate_job_progress_def ex_job_def JobType_of_def estimate_job_duration_def
        total_seconds_def spec_running_progress_def Let_def)

text \<open>A view that \<open>get_job\<close> returns carries the id and the status of the stored record.\<close>

lemma get_job_mirrors_status:
  assumes "get_job env jid cu w = Inr v"
  shows "\<exists>ju j. UUID env jid = Some ju \<and> get_job_row (db w) ju = Some j
    \<and> JobStatus_value (v_status v) = status j \<and> v_job_id v = job_id j"
  using assms
  by (auto simp: get_job_def JobStatusResponse_of_def JobStatus_of_def Let_def
      split: option.splits if_splits sum.splits)

text \<open>
  C9, at a job that its owner has just cancelled. \<open>cancel_job\<close> stores the status
  \<open>cancelled\<close>, which is no member of \<open>JobStatus\<close>: building the \<open>JobStatusResponse\<close>
  fails validation, and \<open>get_job\<close> raises instead of returning a view.
\<close>

theorem get_job_rejects_cancelled_job:
  "fst (cancel_job (ex_api_env None) ''j1'' ex_user
          (ex_world [ex_job ''j1'' ''blackscholes'' ''queued'' 0 None]))
     = Inr (JDict [(''message'', JStr ''Job cancelled successfully'')])
   \<and> get_job (ex_api_env None) ''j1'' ex_user
        (snd (cancel_job (ex_api_env None) ''j1'' ex_user
                (ex_world [ex_job ''j1'' ''blackscholes'' ''queued'' 0 None])))
     = Inl (PyError ''validation error for JobStatusResponse'')"
  by (simp add: cancel_job_def get_job_def ex_api_env_def ex_user_def ex_world_def ex_job_def
        get_job_row_def update_status_def update_fields_def db_write_def db_commit_def Let_def
        JobStatusResponse_of_def JobType_of_def JobStatus_of_def calculate_job_progress_def
        refs_get_def)

section \<open>Submission\<close>

lemma create_job_row_Inr:
  assumes "create_job_row env rq cu d = Inr (j, d1)"
  shows "status j = ''queued'' \<and> job_id j = uuid4 env \<and> user_id j = u_id cu
    \<and> created_at j = utcnow env
    \<and> rows d1 = rows d @ pending d @ [j] \<and> pending d1 = []"
  using assms
  by (auto simp: create_job_row_def Job_create_job_def db_add_def db_commit_def Let_def
      split: option.splits)

lemma message_job_id_message_data:
  "message_job_id (message_data j rq) = Some (JStr (job_id j))"
  by (simp add: message_job_id_def message_data_def)

lemma ex_create_job_row:
  "create_job_row (ex_api_env pub) ex_request ex_user (db ex_empty_world)
     = Inr (ex_created_job, \<lparr>rows = [ex_created_job], pending = []\<rparr>)"
  by (simp add: create_job_row_def Job_create_job_def ex_api_env_def ex_request_def
        ex_user_def ex_empty_world_def ex_created_job_def db_add_def db_commit_def Let_def)

lemma ex_create_job_published:
  "create_job (ex_api_env (Some ex_publisher_ok)) ex_request ex_user ex_empty_world
     = (Inr ex_create_response,
        \<lparr>db = \<lparr>rows = [ex_created_job], pending = []\<rparr>,
         topic = [message_data ex_created_job ex_request]\<rparr>)"
proof -
  have p: "publisher (ex_api_env (Some ex_publisher_ok)) = Some ex_publisher_ok"
    by (simp add: ex_api_env_def)
  have t: "topic ex_empty_world = []"
    by (simp add: ex_empty_world_def)
  have s: "JobStatus_of (status ex_created_job) = Some QUEUED"
    by (simp add: ex_created_job_def JobStatus_of_def)
  have d: "estimate_job_duration (rq_type ex_request) (int (length (rq_symbols ex_request))) = 12"
    by (simp add: estimate_job_duration_def ex_request_def)
  have i: "job_id ex_created_job = ''j1''"
    by (simp add: ex_created_job_def)
  show ?thesis
    by (simp add: create_job_def ex_create_job_row publish_job_def p t s d i
          ex_publisher_ok_def ex_create_response_def)
qed

text \<open>
  C4, as the code has it. A successful \<open>create_job\<close> on a fresh session adds exactly
  one row to the job table, in status \<open>queued\<close>, and answers with that row's id and
  the status QUEUED. It publishes at most one dispatch message: with a Pub/Sub client
  configured, exactly one, and it carries the id of the created row; without one
  (\<open>PubSubPublisher.publisher\<close> is \<open>None\<close>), none, and the call succeeds all the same.
\<close>

theorem create_job_one_record_at_most_one_message:
  assumes "create_job env rq cu w = (Inr resp, w')" and "pending (db w) = []"
  shows "\<exists>j. rows (db w') = rows (db w) @ [j]
    \<and> status j = ''queued'' \<and> cr_status resp = QUEUED \<and> cr_job_id resp = job_id j
    \<and> topic w' = (if publisher env = None then topic w else topic w @ [message_data j rq])
    \<and> message_job_id (message_data j rq) = Some (JStr (cr_job_id resp))"
proof -
  from assms(1) obtain j d1 where row: "create_job_row env rq cu (db w) = Inr (j, d1)"
    by (auto simp: create_job_def split: sum.splits prod.splits)
  note facts = create_job_row_Inr [OF row]
  from assms(1) row obtain mid tp where
    pub: "publish_job env (message_data j rq) (topic w) = (Inr mid, tp)"
    by (auto simp: create_job_def Let_def split: sum.splits prod.splits option.splits)
  have st: "JobStatus_of (status j) = Some QUEUED"
    using facts by (simp add: JobStatus_of_def)
  from assms(1) row pub st have w': "w' = \<lparr>db = d1, topic = tp\<rparr>"
    and resp: "cr_job_id resp = job_id j" "cr_status resp = QUEUED"
    by (auto simp: create_job_def Let_def)
  have tp: "tp = (if publisher env = None then topic w else topic w @ [message_data j rq])"
    using pub by (auto simp: publish_job_def split: option.splits sum.splits)
  show ?thesis
    using facts assms(2) w' resp tp message_job_id_message_data [of j rq]
    by (intro exI [of _ j]) simp
qed

text \<open>The theorem at Scenario A's request with a working Pub/Sub client.\<close>

theorem create_job_one_record_at_most_one_message_witness:
  "create_job (ex_api_env (Some ex_publisher_ok)) ex_request ex_user ex_empty_world
     = (Inr ex_create_response,
        \<lparr>db = \<lparr>rows = [ex_created_job], pending = []\<rparr>,
         topic = [message_data ex_created_job ex_request]\<rparr>)
   \<and> pending (db ex_empty_world) = []
   \<and> status ex_created_job = ''queued''
   \<and> cr_status ex_create_response = QUEUED
   \<and> message_job_id (message_data ex_created_job ex_request)
       = Some (JStr (cr_job_id ex_create_response))"
proof -
  have p: "pending (db ex_empty_world) = []" and r: "rows (db ex_empty_world) = []"
    by (simp_all add: ex_empty_world_def)
  from create_job_one_record_at_most_one_message [OF ex_create_job_published p]
  obtain j where "[ex_created_job] = rows (db ex_empty_world) @ [j]"
    and "status j = ''queued''" and "cr_status ex_create_response = QUEUED"
    and "message_job_id (message_data j ex_request)
           = Some (JStr (cr_job_id ex_create_response))"
    by auto
  with r p ex_create_job_published show ?thesis by simp
qed

text \<open>
  C4 as stated fails: with no Pub/Sub client configured the same request succeeds,
  the row is created, and no dispatch message is published.
\<close>

theorem create_job_without_publisher_counterexample:
  "fst (create_job (ex_api_env None) ex_request ex_user ex_empty_world)
     = Inr ex_create_response
   \<and> rows (db (snd (create_job (ex_api_env None) ex_request ex_user ex_empty_world)))
       = [ex_created_job]
   \<and> topic (snd (create_job (ex_api_env None) ex_request ex_user ex_empty_world)) = []"
proof -
  have p: "publisher (ex_api_env None) = None"
    by (simp add: ex_api_env_def)
  have t: "topic ex_empty_world = []"
    by (simp add: ex_empty_world_def)
  have s: "JobStatus_of (status ex_created_job) = Some QUEUED"
    by (simp add: ex_created_job_def JobStatus_of_def)
  have d: "estimate_job_duration (rq_type ex_request) (int (length (rq_symbols ex_request))) = 12"
    by (simp add: estimate_job_duration_def ex_request_def)
  have i: "job_id ex_created_job = ''j1''"
    by (simp add: ex_created_job_def)
  show ?thesis
    by (simp add: create_job_def ex_create_job_row publish_job_def p t s d i
          ex_create_response_def)
qed

text \<open>
  C6. When the row has been persisted and the publish of its dispatch message raises,
  \<open>create_job\<close> fails with HTTP 500, and the row is still in the job table, in status
  \<open>queued\<close>: \<open>Job.create_job\<close> has committed it, so the \<open>db.rollback()\<close> of the handler
  finds nothing to undo. No message is on the topic.
\<close>

theorem publish_failure_keeps_queued_row:
  assumes "create_job_row env rq cu (db w) = Inr (j, d1)"
    and "publisher env = Some pub"
    and "pub (message_data j rq) = Inl e"
  shows "fst (create_job env rq cu w)
           = Inl (HTTPException 500 (''Failed to create job: '' @ str_exn e))
    \<and> rows (db (snd (create_job env rq cu w))) = rows (db w) @ pending (db w) @ [j]
    \<and> status j = ''queued''
    \<and> topic (snd (create_job env rq cu w)) = topic w"
  using assms create_job_row_Inr [OF assms(1)]
  by (simp add: create_job_def publish_job_def create_failed_def db_rollback_def)

text \<open>The theorem at Scenario A's request with a Pub/Sub client whose publish raises.\<close>

theorem publish_failure_keeps_queued_row_witness:
  "create_job_row (ex_api_env (Some ex_publisher_down)) ex_request ex_user (db ex_empty_world)
     = Inr (ex_created_job, \<lparr>rows = [ex_created_job], pending = []\<rparr>)
   \<and> publisher (ex_api_env (Some ex_publisher_down)) = Some ex_publisher_down
   \<and> ex_publisher_down (message_data ex_created_job ex_request)
       = Inl (PyError ''deadline exceeded'')
   \<and> fst (create_job (ex_api_env (Some ex_publisher_down)) ex_request ex_user ex_empty_world)
       = Inl (HTTPException 500 ''Failed to create job: deadline exceeded'')
   \<and> rows (db (snd (create_job (ex_api_env (Some ex_publisher_down)) ex_request ex_user
                      ex_empty_world)))
       = [ex_created_job]
   \<and> status ex_created_job = ''queued''"
proof -
  have p: "publisher (ex_api_env (Some ex_publisher_down)) = Some ex_publisher_down"
    by (simp add: ex_api_env_def)
  have e: "ex_publisher_down (message_data ex_created_job ex_request)
             = Inl (PyError ''deadline exceeded'')"
    by (simp add: ex_publisher_down_def)
  have r: "rows (db ex_empty_world) = []" "pending (db ex_empty_world) = []"
    by (simp_all add: ex_empty_world_def)
  from publish_failure_keeps_queued_row [OF ex_create_job_row p e] r p e
  show ?thesis by (simp add: ex_create_job_row)
qed

section \<open>Listing\<close>









section \<open>The delivery handler\<close>



lemma process_job_dict:
  "process_job env (JDict jd) w
     = (case run_pipeline env jd (bucket w) of
          (Inr result, b) \<Rightarrow> (Inr result, w\<lparr>bucket := b\<rparr>)
        | (Inl e, b) \<Rightarrow>
            (Inl e,
             w\<lparr>bucket :=
                 snd (write_metrics_json env (dict_get jd ''job_id'' JNull)
                        (JDict [(''job_id'', dict_get jd ''job_id'' JNull),
                                (''error'', JStr (str_exn e)),
                                (''timestamp'', JStr (isoformat_now env))])
                        ''error.json'' b)\<rparr>))"
  by (simp add: process_job_def Let_def split: prod.splits sum.splits)

lemma handler_decoded:
  assumes "delivers req data" and "decode_data env data = Inr job_data"
  shows "process_pubsub_message env req w
    = (case process_job env job_data w of
         (Inl e, w') \<Rightarrow> (Inl (internal_error e), w')
       | (Inr result, w') \<Rightarrow>
           (case JSONResponse
                   (JDict [(''status'', JStr ''processed''),
                           (''job_id'', (case job_data of
                                           JDict jd \<Rightarrow> dict_get jd ''job_id'' JNull
                                         | _ \<Rightarrow> JNull))])
                   200 of
              Inl e \<Rightarrow> (Inl (internal_error e), w')
            | Inr response \<Rightarrow> (Inr response, w')))"
  using assms
  by (auto simp: delivers_def process_pubsub_message_def Let_def
      split: option.splits json.splits)

lemma handler_undecoded:
  assumes "delivers req data" and "decode_data env data = Inl e"
  shows "process_pubsub_message env req w
    = (Inl (HTTPException 400 (''Invalid message format: '' @ str_exn e)), w)"
  using assms
  by (auto simp: delivers_def process_pubsub_message_def Let_def
      split: option.splits json.splits)



lemma ex_delivers: "delivers ex_delivery (JStr ''payload'')"
  by (simp add: delivers_def ex_delivery_def dict_get_def)

lemma ex_decode_ok:
  "decode_data ex_env_ok (JStr ''payload'') = Inr (JDict ex_job_fields)"
  "decode_data ex_env_no_data (JStr ''payload'') = Inr (JDict ex_job_fields)"
  "decode_data ex_env_bad_json (JStr ''payload'') = Inl (PyError ''Expecting value'')"
  by (simp_all add: decode_data_def ex_env_ok_def ex_env_no_data_def ex_env_bad_json_def
        ex_worker_env_def)

lemma ex_pipeline_no_data:
  "run_pipeline ex_env_no_data ex_job_fields b = (Inl (PyError ''No data found''), b)"
  by (simp add: run_pipeline_def ex_env_no_data_def ex_worker_env_def Let_def)







text \<open>
  A payload whose job id is NaN: the pipeline runs and uploads, and then the response
  cannot be built.
\<close>

lemma nan_job_id_is_answered_with_500:
  assumes "delivers req data" and "decode_data env data = Inr (JDict jd)"
    and "dict_get jd ''job_id'' JNull = JFloat NaN"
    and "run_pipeline env jd (bucket w) = (Inr result, b)"
  shows "process_pubsub_message env req w
           = (Inl (HTTPException 500
                ''Internal server error: Out of range float values are not JSON compliant''),
              w\<lparr>bucket := b\<rparr>)"
  by (simp add: handler_decoded [OF assms(1,2)] process_job_dict assms(3,4) JSONResponse_def
        internal_error_def)




text \<open>
  C2, as the code has it. When the pipeline of a delivery fails, \<open>process_job\<close>
  writes the error text to the artifact \<open>error.json\<close> of the job, best effort, and
  raises the error again; the handler answers HTTP 500 with the error text, which is
  no acknowledgement; and the job table is left as it was: no record moves to
  \<open>failed\<close> and no \<open>error\<close> field is written.
\<close>

theorem pipeline_failure_is_answered_with_500:
  assumes "delivers req data" and "decode_data env data = Inr (JDict jd)"
    and "run_pipeline env jd (bucket w) = (Inl (PyError msg), b)"
  shows "fst (process_pubsub_message env req w)
           = Inl (HTTPException 500 (''Internal server error: '' @ msg))
    \<and> \<not> acknowledged (fst (process_pubsub_message env req w))
    \<and> jobs (snd (process_pubsub_message env req w)) = jobs w
    \<and> bucket (snd (process_pubsub_message env req w))
        = snd (write_metrics_json env (dict_get jd ''job_id'' JNull)
                 (JDict [(''job_id'', dict_get jd ''job_id'' JNull),
                         (''error'', JStr msg),
                         (''timestamp'', JStr (isoformat_now env))])
                 ''error.json'' b)"
  by (simp add: handler_decoded [OF assms(1,2)] process_job_dict assms(3) internal_error_def
        acknowledged_def)

text \<open>The theorem at a running job whose price data cannot be loaded.\<close>

theorem pipeline_failure_is_answered_with_500_witness:
  "delivers ex_delivery (JStr ''payload'')
   \<and> decode_data ex_env_no_data (JStr ''payload'') = Inr (JDict ex_job_fields)
   \<and> run_pipeline ex_env_no_data ex_job_fields (bucket (ex_worker_world ''running''))
       = (Inl (PyError ''No data found''), [])
   \<and> fst (process_pubsub_message ex_env_no_data ex_delivery (ex_worker_world ''running''))
       = Inl (HTTPException 500 ''Internal server error: No data found'')
   \<and> jobs (snd (process_pubsub_message ex_env_no_data ex_delivery (ex_worker_world ''running'')))
       = jobs (ex_worker_world ''running'')"
proof -
  have p: "run_pipeline ex_env_no_data ex_job_fields (bucket (ex_worker_world ''running''))
             = (Inl (PyError ''No data found''), [])"
    by (simp add: ex_pipeline_no_data ex_worker_world_def)
  from pipeline_failure_is_answered_with_500 [OF ex_delivers ex_decode_ok(2) p]
  show ?thesis
    by (simp add: ex_delivers ex_decode_ok p)
qed

text \<open>
  C2 as stated fails: the job \<open>j1\<close> is running, the price loader raises, and the
  handler answers HTTP 500, not an acknowledgement; the record of \<open>j1\<close> is still
  \<open>running\<close> and has no error; the error text went to \<open>jobs/j1/error.json\<close>.
\<close>

theorem failed_pipeline_counterexample:
  "fst (process_pubsub_message ex_env_no_data ex_delivery (ex_worker_world ''running''))
     = Inl (HTTPException 500 ''Internal server error: No data found'')
   \<and> acknowledged
        (fst (process_pubsub_message ex_env_no_data ex_delivery (ex_worker_world ''running'')))
       = False
   \<and> map status (rows (jobs (snd (process_pubsub_message ex_env_no_data ex_delivery
                                     (ex_worker_world ''running'')))))
       = [''running'']
   \<and> map error (rows (jobs (snd (process_pubsub_message ex_env_no_data ex_delivery
                                    (ex_worker_world ''running'')))))
       = [None]
   \<and> map fst (bucket (snd (process_pubsub_message ex_env_no_data ex_delivery
                              (ex_worker_world ''running''))))
       = [''jobs/j1/error.json'']"
proof -
  have w: "write_metrics_json ex_env_no_data (JStr ''j1'') v ''error.json'' []
             = (Inr ''jobs/j1/error.json'', [(''jobs/j1/error.json'', v)])" for v
    by (simp add: write_metrics_json_def ex_env_no_data_def ex_worker_env_def fmt_def Let_def)
  have i: "dict_get ex_job_fields ''job_id'' JNull = JStr ''j1''"
    by (simp add: dict_get_def ex_job_fields_def)
  have b: "bucket (ex_worker_world ''running'') = []"
    and s: "map status (rows (jobs (ex_worker_world ''running''))) = [''running'']"
    and e: "map error (rows (jobs (ex_worker_world ''running''))) = [None]"
    by (simp_all add: ex_worker_world_def ex_job_def)
  show ?thesis
    by (simp add: handler_decoded [OF ex_delivers ex_decode_ok(2)] process_job_dict
          ex_pipeline_no_data b s e i w internal_error_def acknowledged_def)
qed

text \<open>
  C5, as the code has it. For every authenticated delivery whose payload cannot be
  decoded (the base64 or UTF-8 decoding or the JSON parsing raises), the handler does
  not process it: no collaborator runs and nothing changes. It raises HTTP 400
  "Invalid message format", which is no acknowledgement.
\<close>

theorem undecodable_payload_is_answered_with_400:
  assumes "delivers req data" and "decode_data env data = Inl e"
  shows "process_pubsub_message env req w
           = (Inl (HTTPException 400 (''Invalid message format: '' @ str_exn e)), w)
    \<and> \<not> acknowledged (fst (process_pubsub_message env req w))"
  by (simp add: handler_undecoded [OF assms] acknowledged_def)

text \<open>The theorem at a payload that is not JSON.\<close>

theorem undecodable_payload_is_answered_with_400_witness:
  "delivers ex_delivery (JStr ''payload'')
   \<and> decode_data ex_env_bad_json (JStr ''payload'') = Inl (PyError ''Expecting value'')
   \<and> process_pubsub_message ex_env_bad_json ex_delivery (ex_worker_world ''queued'')
       = (Inl (HTTPException 400 ''Invalid message format: Expecting value''),
          ex_worker_world ''queued'')"
proof -
  from undecodable_payload_is_answered_with_400 [OF ex_delivers ex_decode_ok(3)]
  show ?thesis
    by (simp add: ex_delivers ex_decode_ok)
qed

text \<open>
  C5 as stated fails: the payload of the delivery is not JSON, and the response is
  HTTP 400, not an acknowledgement.
\<close>

theorem malformed_payload_counterexample:
  "decode_data ex_env_bad_json (JStr ''payload'') = Inl (PyError ''Expecting value'')
   \<and> status_code
        (fst (process_pubsub_message ex_env_bad_json ex_delivery (ex_worker_world ''queued'')))
       = 400
   \<and> acknowledged
        (fst (process_pubsub_message ex_env_bad_json ex_delivery (ex_worker_world ''queued'')))
       = False"
  by (simp add: handler_undecoded [OF ex_delivers ex_decode_ok(3)] ex_decode_ok
        acknowledged_def)

end
